theory Spec2Isabelle
  imports Complex_Main
begin

section \<open>Gas exchange primitives: diffusivity, Schmidt number, viscosity, solubility\<close>

text \<open>
  A shallow embedding of \<^verbatim>\<open>gasex/diff.py\<close> and \<^verbatim>\<open>gasex/sol.py\<close>.

  Numbers. Python floats are modelled by the real numbers: a decimal literal of the
  source is the real number it denotes, \<^verbatim>\<open>np.exp\<close> and \<^verbatim>\<open>np.log\<close> are
  \<^term>\<open>exp\<close> and \<^term>\<open>ln\<close>. Overflow and underflow are outside the model, and so is
  rounding, except for the table branch of \<^verbatim>\<open>diff\<close>, which is modelled a second time
  in double precision (\<open>diff_row\<close>) for the one claim that depends on it.

  Failures. An exception of the source is an \<open>Inl\<close> result. numpy arithmetic does not
  raise where an operand leaves the domain of the real operation (a zero divisor, a
  logarithm of a number that is not positive): it warns and goes on with an infinity or a
  NaN. The model returns the value \<open>DomainFailure\<close> there and does not follow the float
  any further, so nothing is claimed about what number comes out in the end.
\<close>

subsection \<open>Results\<close>

datatype error =
    IndexError
  | UnboundLocalError
  | ZeroDivisionError
  | UpstreamFailure
  | UnsupportedGas

text \<open>
  \<open>UpstreamFailure\<close> stands for any exception of the thermodynamic provider.
  \<open>UnsupportedGas\<close> is the error of the specification's taxonomy; the source has no
  \<^verbatim>\<open>raise\<close> statement at all.
\<close>

datatype val = Finite real | DomainFailure

type_synonym result = "error + val"

text \<open>Division of two numpy values: a zero divisor gives an infinity or a NaN.\<close>

fun np_div :: "val \<Rightarrow> val \<Rightarrow> val" where
  "np_div (Finite a) (Finite b) = (if b = 0 then DomainFailure else Finite (a / b))"
| "np_div _ _ = DomainFailure"

text \<open>
  A subscript \<^verbatim>\<open>xs[i]\<close> with a literal index \<open>i \<ge> 0\<close> raises IndexError when
  \<open>i\<close> is not below the length of the list. \<open>subscript_fails xs is\<close> says that one of
  the subscripts \<open>is\<close>, the ones an expression evaluates on \<open>xs\<close>, raises.
\<close>

definition subscript_fails :: "'a list \<Rightarrow> nat list \<Rightarrow> bool" where
  "subscript_fails xs is = list_ex (\<lambda>i. length xs \<le> i) is"

subsection \<open>The thermodynamic provider (package gsw)\<close>

text \<open>
  The four functions imported from \<^verbatim>\<open>gsw\<close> are not part of the repository. They are
  a parameter of the model: each either raises or returns a number.
\<close>

record gsw =
  CT_from_pt :: "real \<Rightarrow> real \<Rightarrow> error + real"
  rho :: "real \<Rightarrow> real \<Rightarrow> real \<Rightarrow> error + real"
  SP_from_SA :: "real \<Rightarrow> real \<Rightarrow> real \<Rightarrow> real \<Rightarrow> error + real"
  pt_from_CT :: "real \<Rightarrow> real \<Rightarrow> error + real"

text \<open>
  A provider to run the model on: conservative temperature equal to potential
  temperature, Practical Salinity by the fixed ratio, density 1000.
\<close>

definition gsw_fresh :: gsw where
  "gsw_fresh =
     \<lparr> CT_from_pt = (\<lambda>SA pt. Inr pt),
       rho = (\<lambda>SA CT p. Inr 1000),
       SP_from_SA = (\<lambda>SA p long lat. Inr (SA * 35 / 35.16504)),
       pt_from_CT = (\<lambda>SA CT. Inr CT) \<rparr>"

subsection \<open>diff.py\<close>

text \<open>\<^verbatim>\<open>visc(SP,pt)\<close>: the density comes back from the provider as a numpy value.\<close>

definition visc :: "gsw \<Rightarrow> real \<Rightarrow> real \<Rightarrow> result" where
  "visc g SP pt =
     (let SA = SP * 35.16504 / 35 in
      case CT_from_pt g SA pt of
        Inl e \<Rightarrow> Inl e
      | Inr CT \<Rightarrow>
         (case rho g SA CT 0 of
            Inl e \<Rightarrow> Inl e
          | Inr dens \<Rightarrow>
              Inr (np_div
                (Finite (1 / 10 ^ 4 * (17.91 - 0.5381 * pt + 0.00694 * pt ^ 2 + 0.02305 * SP)))
                (Finite dens))))"

text \<open>The table \<^verbatim>\<open>AEa_dict\<close> of \<^verbatim>\<open>diff\<close>, in the order of the source.\<close>

definition AEa_dict :: "(string \<times> real list) list" where
  "AEa_dict =
     [(''O2'',  [4.286 / 10 ^ 6, 18700]),
      (''He'',  [0.8180 / 10 ^ 6, 11700]),
      (''Ne'',  [1.6080 / 10 ^ 6, 14840]),
      (''Ar'',  [2.227 / 10 ^ 6, 16680]),
      (''Kr'',  [6.3930 / 10 ^ 6, 20200]),
      (''Xe'',  [9.0070 / 10 ^ 6, 21610]),
      (''N2'',  [3.4120 / 10 ^ 6, 18500]),
      (''CH4'', [3.0470 / 10 ^ 6, 18360]),
      (''CO2'', [5.0190 / 10 ^ 6, 19510]),
      (''H2'',  [3.3380 / 10 ^ 6, 16060])]"

text \<open>
  \<^verbatim>\<open>diff\<close> and \<^verbatim>\<open>schmidt\<close> call each other. The first argument bounds the depth
  of the calls: \<open>None\<close> means that the bound was reached before a result. The test
  \<^verbatim>\<open>gas in AEa_dict.keys()\<close> and the lookup \<^verbatim>\<open>AEa_dict[gas]\<close> that follows it
  are the one \<open>map_of\<close> on the table. \<^verbatim>\<open>diff\<close>
  has no wrapper, its arguments are the caller's Python numbers, and the division in the
  exponent raises ZeroDivisionError on a zero divisor. Where neither branch of the
  \<^verbatim>\<open>if\<close>/\<^verbatim>\<open>elif\<close> assigns \<^verbatim>\<open>D\<close>, \<^verbatim>\<open>return D\<close> raises
  UnboundLocalError. \<^verbatim>\<open>schmidt\<close> evaluates \<^verbatim>\<open>visc\<close> first, then \<^verbatim>\<open>diff\<close>, and
  divides two numpy values.
\<close>

fun diff :: "nat \<Rightarrow> gsw \<Rightarrow> real \<Rightarrow> real \<Rightarrow> string \<Rightarrow> result option"
  and schmidt :: "nat \<Rightarrow> gsw \<Rightarrow> real \<Rightarrow> real \<Rightarrow> string \<Rightarrow> result option"
where
  "diff 0 g SP pt gas = None"
| "diff (Suc n) g SP pt gas =
     (let R = 8.314510 in
      case map_of AEa_dict gas of
        Some AEa \<Rightarrow>
          if subscript_fails AEa [0, 1] then Some (Inl IndexError)
          else if R * (pt + 273.15) = 0 then Some (Inl ZeroDivisionError)
          else
            let D0 = AEa ! 0 * exp (- (AEa ! 1) / (R * (pt + 273.15)));
                D = D0 * (1 - 0.049 * SP / 35.5)
            in Some (Inr (Finite D))
      | None \<Rightarrow>
          if gas = ''CO2'' then
            (case visc g SP pt of
               Inl e \<Rightarrow> Some (Inl e)
             | Inr v \<Rightarrow>
                (case schmidt n g SP pt ''CO2'' of
                   None \<Rightarrow> None
                 | Some (Inl e) \<Rightarrow> Some (Inl e)
                 | Some (Inr s) \<Rightarrow> Some (Inr (np_div v s))))
          else Some (Inl UnboundLocalError))"
| "schmidt 0 g SP pt gas = None"
| "schmidt (Suc n) g SP pt gas =
     (case visc g SP pt of
        Inl e \<Rightarrow> Some (Inl e)
      | Inr v \<Rightarrow>
         (case diff n g SP pt gas of
            None \<Rightarrow> None
          | Some (Inl e) \<Rightarrow> Some (Inl e)
          | Some (Inr d) \<Rightarrow> Some (Inr (np_div v d))))"

subsection \<open>sol.py\<close>

text \<open>
  Modelled from the spec: the decorator \<^verbatim>\<open>match_args_return\<close> of
  \<^verbatim>\<open>gasex/_utilities.py\<close>, which is not among the sources. It is the input-shape
  wrapper: it hands the arguments to the function as numpy values and gives a scalar back
  for scalar arguments. On the scalars of this model it is the identity; what it changes
  is that the arithmetic of the decorated function is numpy's, which does not raise.
\<close>

definition match_args_return :: "'f \<Rightarrow> 'f" where
  "match_args_return f = f"

text \<open>
  Every function below first binds its locals, as the source does, then evaluates one
  expression. The subscripts of that expression raise before any number is returned, so
  they are checked first; then the operands of the divisions and logarithms.
\<close>

definition O2sol_SP_pt :: "real \<Rightarrow> real \<Rightarrow> result" where
  "O2sol_SP_pt =
     match_args_return (\<lambda>SP pt.
       let x = SP;
           pt68 = pt * 1.00024;
           a = [5.80871, 3.20291, 4.17887, 5.10006, - 9.86643 / 10 ^ 2, 3.80369];
           b = [- 7.01577 / 10 ^ 3, - 7.70028 / 10 ^ 3, - 1.13864 / 10 ^ 2, - 9.51519 / 10 ^ 3];
           c = - 2.75915 / 10 ^ 7
       in
         if subscript_fails a [0, 1, 2, 3, 4, 5] \<or> subscript_fails b [0, 1, 2, 3]
         then Inl IndexError
         else if 273.15 + pt68 = 0 \<or> (298.15 - pt68) / (273.15 + pt68) \<le> 0
         then Inr DomainFailure
         else
           let y = ln ((298.15 - pt68) / (273.15 + pt68));
               lnC = (a ! 0 + y * (a ! 1 + y * (a ! 2 + y * (a ! 3 + y * (a ! 4 + a ! 5 * y))))
                      + x * (b ! 0 + y * (b ! 1 + y * (b ! 2 + b ! 3 * y)) + c * x))
           in Inr (Finite (exp lnC)))"

definition O2sol :: "gsw \<Rightarrow> real \<Rightarrow> real \<Rightarrow> real \<Rightarrow> real \<Rightarrow> real \<Rightarrow> result" where
  "O2sol g =
     match_args_return (\<lambda>SA CT p long lat.
       case SP_from_SA g SA p long lat of
         Inl e \<Rightarrow> Inl e
       | Inr SP \<Rightarrow>
          (case pt_from_CT g SA CT of
             Inl e \<Rightarrow> Inl e
           | Inr pt \<Rightarrow> O2sol_SP_pt SP pt))"

definition Hesol_SP_pt :: "real \<Rightarrow> real \<Rightarrow> result" where
  "Hesol_SP_pt =
     match_args_return (\<lambda>SP pt.
       let x = SP;
           pt68 = pt * 1.00024;
           y = pt68 + 273.15;
           y_100 = y * (1 / 10 ^ 2);
           a = [- 167.2178, 216.3442, 139.2032, - 22.6202];
           b = [- 0.044781, 0.023541, - 0.0034266]
       in
         if subscript_fails a [0, 1, 2, 3] \<or> subscript_fails b [0, 1, 2]
         then Inl IndexError
         else if y = 0 \<or> y_100 \<le> 0
         then Inr DomainFailure
         else
           let Hesol_mL = exp (a ! 0 + a ! 1 * 100 / y + a ! 2 * ln y_100 + a ! 3 *
                               y_100 + x * (b ! 0 + y_100 * (b ! 1 + b ! 2 * y_100)));
               Hesol = Hesol_mL * (4.455817671505537 * 10 ^ 1)
           in Inr (Finite Hesol))"

definition Hesol :: "gsw \<Rightarrow> real \<Rightarrow> real \<Rightarrow> real \<Rightarrow> real \<Rightarrow> real \<Rightarrow> result" where
  "Hesol g =
     match_args_return (\<lambda>SA CT p long lat.
       case SP_from_SA g SA p long lat of
         Inl e \<Rightarrow> Inl e
       | Inr SP \<Rightarrow>
          (case pt_from_CT g SA CT of
             Inl e \<Rightarrow> Inl e
           | Inr pt \<Rightarrow> Hesol_SP_pt SP pt))"

definition Nesol_SP_pt :: "real \<Rightarrow> real \<Rightarrow> result" where
  "Nesol_SP_pt =
     match_args_return (\<lambda>SP pt.
       let x = SP;
           a = [2.18156, 1.29108, 2.12504];
           b = [- 5.94737 / 10 ^ 3, - 5.13896 / 10 ^ 3]
       in
         if subscript_fails a [0, 1, 2] \<or> subscript_fails b [0, 1]
         then Inl IndexError
         else if 273.15 + pt = 0 \<or> (298.15 - pt) / (273.15 + pt) \<le> 0
         then Inr DomainFailure
         else
           let y = ln ((298.15 - pt) / (273.15 + pt));
               Nesol = 10 ^ 3 * exp (a ! 0 + y * (a ! 1 + a ! 2 * y) + x * (b ! 0 + b ! 1 * y))
           in Inr (Finite Nesol))"

definition Nesol :: "gsw \<Rightarrow> real \<Rightarrow> real \<Rightarrow> real \<Rightarrow> real \<Rightarrow> real \<Rightarrow> result" where
  "Nesol g =
     match_args_return (\<lambda>SA CT p long lat.
       case SP_from_SA g SA p long lat of
         Inl e \<Rightarrow> Inl e
       | Inr SP \<Rightarrow>
          (case pt_from_CT g SA CT of
             Inl e \<Rightarrow> Inl e
           | Inr pt \<Rightarrow> Nesol_SP_pt SP pt))"

definition Arsol_SP_pt :: "real \<Rightarrow> real \<Rightarrow> result" where
  "Arsol_SP_pt =
     match_args_return (\<lambda>SP pt.
       let x = SP;
           a = [2.79150, 3.17609, 4.13116, 4.90379];
           b = [- 6.96233 / 10 ^ 3, - 7.66670 / 10 ^ 3, - 1.16888 / 10 ^ 2]
       in
         if subscript_fails a [0, 1, 2, 3] \<or> subscript_fails b [0, 1, 2]
         then Inl IndexError
         else if 273.15 + pt = 0 \<or> (298.15 - pt) / (273.15 + pt) \<le> 0
         then Inr DomainFailure
         else
           let y = ln ((298.15 - pt) / (273.15 + pt));
               Arsol = exp (a ! 0 + y * (a ! 1 + y * (a ! 2 + a ! 3 * y)) + x *
                            (b ! 0 + y * (b ! 1 + b ! 2 * y)))
           in Inr (Finite Arsol))"

definition Arsol :: "gsw \<Rightarrow> real \<Rightarrow> real \<Rightarrow> real \<Rightarrow> real \<Rightarrow> real \<Rightarrow> result" where
  "Arsol g =
     match_args_return (\<lambda>SA CT p long lat.
       case SP_from_SA g SA p long lat of
         Inl e \<Rightarrow> Inl e
       | Inr SP \<Rightarrow>
          (case pt_from_CT g SA CT of
             Inl e \<Rightarrow> Inl e
           | Inr pt \<Rightarrow> Arsol_SP_pt SP pt))"

definition Krsol_SP_pt :: "real \<Rightarrow> real \<Rightarrow> result" where
  "Krsol_SP_pt =
     match_args_return (\<lambda>SP pt.
       let x = SP;
           pt68 = pt * 1.00024;
           y = pt68 + 273.15;
           y_100 = y * (1 / 10 ^ 2);
           a = [- 112.6840, 153.5817, 74.4690, - 10.0189];
           b = [- 0.011213, - 0.001844, 0.0011201]
       in
         if subscript_fails a [0, 1, 2, 3] \<or> subscript_fails b [0, 1, 2]
         then Inl IndexError
         else if y = 0 \<or> y_100 \<le> 0
         then Inr DomainFailure
         else
           let Krsol_mL = exp (a ! 0 + a ! 1 * 100 / y + a ! 2 * ln y_100 + a ! 3 *
                               y_100 + x * (b ! 0 + y_100 * (b ! 1 + b ! 2 * y_100)));
               Krsol = Krsol_mL * (4.474052731185490 * 10 ^ 1)
           in Inr (Finite Krsol))"

definition Krsol :: "gsw \<Rightarrow> real \<Rightarrow> real \<Rightarrow> real \<Rightarrow> real \<Rightarrow> real \<Rightarrow> result" where
  "Krsol g =
     match_args_return (\<lambda>SA CT p long lat.
       case SP_from_SA g SA p long lat of
         Inl e \<Rightarrow> Inl e
       | Inr SP \<Rightarrow>
          (case pt_from_CT g SA CT of
             Inl e \<Rightarrow> Inl e
           | Inr pt \<Rightarrow> Krsol_SP_pt SP pt))"

definition N2sol_SP_pt :: "real \<Rightarrow> real \<Rightarrow> result" where
  "N2sol_SP_pt =
     match_args_return (\<lambda>SP pt.
       let x = SP;
           a = [6.42931, 2.92704, 4.32531, 4.69149];
           b = [- 7.44129 / 10 ^ 3, - 8.02566 / 10 ^ 3, - 1.46775 / 10 ^ 2]
       in
         if subscript_fails a [0, 1, 2, 3] \<or> subscript_fails b [0, 1, 2]
         then Inl IndexError
         else if 273.15 + pt = 0 \<or> (298.15 - pt) / (273.15 + pt) \<le> 0
         then Inr DomainFailure
         else
           let y = ln ((298.15 - pt) / (273.15 + pt));
               N2sol = exp (a ! 0 + y * (a ! 1 + y * (a ! 2 + a ! 3 * y)) + x *
                            (b ! 0 + y * (b ! 1 + b ! 2 * y)))
           in Inr (Finite N2sol))"

definition N2sol :: "gsw \<Rightarrow> real \<Rightarrow> real \<Rightarrow> real \<Rightarrow> real \<Rightarrow> real \<Rightarrow> result" where
  "N2sol g =
     match_args_return (\<lambda>SA CT p long lat.
       case SP_from_SA g SA p long lat of
         Inl e \<Rightarrow> Inl e
       | Inr SP \<Rightarrow>
          (case pt_from_CT g SA CT of
             Inl e \<Rightarrow> Inl e
           | Inr pt \<Rightarrow> N2sol_SP_pt SP pt))"

text \<open>
  \<^verbatim>\<open>N2Osol_SP_pt\<close> binds \<^verbatim>\<open>a\<close> and \<^verbatim>\<open>b\<close> twice; the second binding is the
  one in force. Its \<^verbatim>\<open>b\<close> is written
  \<^verbatim>\<open>[-0.060361 + 0.033765, -0.0051862]\<close>: a list of two numbers, the first of them a
  sum. \<^verbatim>\<open>ph2odP\<close> is computed before the expression with the subscripts.
\<close>

definition N2Osol_SP_pt :: "real \<Rightarrow> real \<Rightarrow> result" where
  "N2Osol_SP_pt =
     match_args_return (\<lambda>SP pt.
       let x = SP;
           pt68 = pt * 1.00024;
           y = pt68 + 273.15;
           y_100 = y * (1 / 10 ^ 2);
           a = [- 165.8806, 222.8743, 92.0792, - 1.48425 :: real];
           b = [- 0.056235, 0.031619, - 0.0048472 :: real];
           a = [- 168.2459, 226.0894, 93.2817, - 1.48693];
           b = [- 0.060361 + 0.033765, - 0.0051862];
           m = [24.4543, 67.4509, 4.8489, 0.000544]
       in
         if subscript_fails m [0, 1, 2, 3]
         then Inl IndexError
         else if subscript_fails a [0, 1, 2, 3] \<or> subscript_fails b [0, 1, 2]
         then Inl IndexError
         else if y = 0 \<or> y_100 \<le> 0
         then Inr DomainFailure
         else
           let ph2odP = exp (m ! 0 - m ! 1 * 100 / y - m ! 2 * ln y_100 - m ! 3 * x)
           in
             if 1 - ph2odP = 0 then Inr DomainFailure
             else
               let N2Osol = (exp (a ! 0 + a ! 1 * 100 / y + a ! 2 * ln y_100 + a ! 3 *
                                  y_100 ^ 2 + x * (b ! 0 + y_100 * (b ! 1 + b ! 2 * y_100)))) /
                            (1 - ph2odP)
               in Inr (Finite N2Osol))"

definition N2Osol :: "gsw \<Rightarrow> real \<Rightarrow> real \<Rightarrow> real \<Rightarrow> real \<Rightarrow> real \<Rightarrow> result" where
  "N2Osol g =
     match_args_return (\<lambda>SA CT p long lat.
       case SP_from_SA g SA p long lat of
         Inl e \<Rightarrow> Inl e
       | Inr SP \<Rightarrow>
          (case pt_from_CT g SA CT of
             Inl e \<Rightarrow> Inl e
           | Inr pt \<Rightarrow> N2Osol_SP_pt SP pt))"

definition CO2sol_SP_pt :: "real \<Rightarrow> real \<Rightarrow> result" where
  "CO2sol_SP_pt =
     match_args_return (\<lambda>SP pt.
       let x = SP;
           pt68 = pt * 1.00024;
           y = pt68 + 273.15;
           y_100 = y * (1 / 10 ^ 2);
           a = [- 162.8301, 218.2968, 90.9241, - 1.47696];
           b = [0.025695, - 0.025225, 0.0049867]
       in
         if subscript_fails a [0, 1, 2, 3] \<or> subscript_fails b [0, 1, 2]
         then Inl IndexError
         else if y = 0 \<or> y_100 \<le> 0
         then Inr DomainFailure
         else
           let CO2sol = exp (a ! 0 + a ! 1 * 100 / y + a ! 2 * ln y_100 + a ! 3 *
                             y_100 ^ 2 + x * (b ! 0 + b ! 1 * y_100 + b ! 2 * y_100 ^ 2))
           in Inr (Finite CO2sol))"

definition CO2sol :: "gsw \<Rightarrow> real \<Rightarrow> real \<Rightarrow> real \<Rightarrow> real \<Rightarrow> real \<Rightarrow> result" where
  "CO2sol g =
     match_args_return (\<lambda>SA CT p long lat.
       case SP_from_SA g SA p long lat of
         Inl e \<Rightarrow> Inl e
       | Inr SP \<Rightarrow>
          (case pt_from_CT g SA CT of
             Inl e \<Rightarrow> Inl e
           | Inr pt \<Rightarrow> CO2sol_SP_pt SP pt))"

text \<open>
  The module as a name space: the functions it defines, by name, in the order of the
  source, and its export list \<^verbatim>\<open>__all__\<close>.
\<close>

datatype solfun =
    SP_pt "real \<Rightarrow> real \<Rightarrow> result"
  | SA_CT "gsw \<Rightarrow> real \<Rightarrow> real \<Rightarrow> real \<Rightarrow> real \<Rightarrow> real \<Rightarrow> result"

definition sol_module :: "(string \<times> solfun) list" where
  "sol_module =
     [(''O2sol_SP_pt'', SP_pt O2sol_SP_pt), (''O2sol'', SA_CT O2sol),
      (''Hesol_SP_pt'', SP_pt Hesol_SP_pt), (''Hesol'', SA_CT Hesol),
      (''Nesol_SP_pt'', SP_pt Nesol_SP_pt), (''Nesol'', SA_CT Nesol),
      (''Arsol_SP_pt'', SP_pt Arsol_SP_pt), (''Arsol'', SA_CT Arsol),
      (''Krsol_SP_pt'', SP_pt Krsol_SP_pt), (''Krsol'', SA_CT Krsol),
      (''N2sol_SP_pt'', SP_pt N2sol_SP_pt), (''N2sol'', SA_CT N2sol),
      (''N2Osol_SP_pt'', SP_pt N2Osol_SP_pt), (''N2Osol'', SA_CT N2Osol),
      (''CO2sol_SP_pt'', SP_pt CO2sol_SP_pt), (''CO2sol'', SA_CT CO2sol)]"

definition sol_all :: "string list" where
  "sol_all =
     [''O2sol_SP_pt'', ''Hesol_SP_pt'', ''Nesol_SP_pt'', ''Arsol_SP_pt'',
      ''Krsol_SP_pt'', ''N2sol_SP_pt'', ''N2Osol_SP_pt'', ''O2sol'', ''Hesol'',
      ''Nesol'', ''Arsol'', ''Krsol'', ''N2sol'', ''N2Osol'']"

subsection \<open>The fit families as the specification words them\<close>

text \<open>
  The specification describes the solubility fits by families. The definitions of this
  subsection follow its words, not the source; the theorems below compare the functions
  of the source with them.

  The log-temperature family: \<open>y = ln((298.15 - T)/(273.15 + T))\<close> for a temperature
  \<open>T\<close> in degrees C, a polynomial \<open>a0 + y(a1 + y(a2 + ...))\<close> in nested form, and
  \<open>ln C = a(y) + SP (b(y) + c SP)\<close>.
\<close>

definition logT_y :: "real \<Rightarrow> real" where
  "logT_y T = ln ((298.15 - T) / (273.15 + T))"

fun nested :: "real list \<Rightarrow> real \<Rightarrow> real" where
  "nested [] y = 0"
| "nested (k # ks) y = k + y * nested ks y"

definition logT_lnC :: "real list \<Rightarrow> real list \<Rightarrow> real \<Rightarrow> real \<Rightarrow> real \<Rightarrow> real" where
  "logT_lnC a b c y SP = nested a y + SP * (nested b y + c * SP)"

text \<open>
  The temperature at which the variable of the log-temperature family takes a given
  value \<open>y\<close>.
\<close>

definition logT_T :: "real \<Rightarrow> real" where
  "logT_T y = (298.15 - 273.15 * exp y) / (1 + exp y)"

text \<open>
  The inverse-temperature family for N2O, with its moist-air correction: \<open>T68 = 1.00024 T\<close>,
  \<open>y = T68 + 273.15\<close>, \<open>y100 = y / 100\<close>,
  \<open>ln C' = a0 + a1 (100/y) + a2 ln(y100) + a3 y100\<^sup>2 + SP (b0 + y100 (b1 + y100 b2))\<close>,
  \<open>ph2odP = exp(m0 - m1 100/y - m2 ln(y100) - m3 SP)\<close> and the result
  \<open>exp(ln C') / (1 - ph2odP)\<close>. The coefficients are those of Weiss and Price (1980) for
  mol kg-1 atm-1: the numbers of the source, three of them in \<open>b\<close>.
\<close>

definition N2Osol_Weiss_Price :: "real \<Rightarrow> real \<Rightarrow> real" where
  "N2Osol_Weiss_Price SP T =
     (let T68 = T * 1.00024;
          y = T68 + 273.15;
          y100 = y / 100;
          lnC = - 168.2459 + 226.0894 * (100 / y) + 93.2817 * ln y100 + - 1.48693 * y100 ^ 2
                + SP * (- 0.060361 + y100 * (0.033765 + y100 * - 0.0051862));
          ph2odP = exp (24.4543 - 67.4509 * 100 / y - 4.8489 * ln y100 - 0.000544 * SP)
      in exp lnC / (1 - ph2odP))"

text \<open>
  What the specification asks of a solubility: a number was returned, no exception and
  no infinity or NaN, and the number is strictly positive.
\<close>

fun positive_finite :: "result \<Rightarrow> bool" where
  "positive_finite (Inr (Finite v)) = (0 < v)"
| "positive_finite _ = False"

subsection \<open>Double precision\<close>




text \<open>
  Lines 85 to 88 of \<^verbatim>\<open>diff\<close>, the branch of a gas with the row \<^verbatim>\<open>AEa\<close>, with
  the rounding \<open>fl\<close> applied to every literal that is not a double already and to the
  result of every operation, and with \<open>np_exp\<close> for what \<^verbatim>\<open>np.exp\<close> returns. The
  activation energies, 35.5 and 1 are doubles as they stand. With no rounding and the
  exponential function this is the first branch of \<open>diff\<close> above.
\<close>

definition diff_row ::
  "(real \<Rightarrow> real) \<Rightarrow> (real \<Rightarrow> real) \<Rightarrow> real list \<Rightarrow> real \<Rightarrow> real \<Rightarrow> result" where
  "diff_row fl np_exp AEa SP pt =
     (let R = fl 8.314510 in
      if subscript_fails AEa [0, 1] then Inl IndexError
      else if fl (R * fl (pt + fl 273.15)) = 0 then Inl ZeroDivisionError
      else
        let D0 = fl (fl (AEa ! 0) * np_exp (fl (- (AEa ! 1) / fl (R * fl (pt + fl 273.15)))));
            D = fl (D0 * fl (1 - fl (fl (fl 0.049 * SP) / 35.5)))
        in Inr (Finite D))"

section \<open>Properties of diff.py\<close>

subsection \<open>The table\<close>

lemma map_of_AEa_dict_CO2: "map_of AEa_dict ''CO2'' = Some [5.0190 / 10 ^ 6, 19510]"
  by (simp add: AEa_dict_def)

lemma AEa_dict_rows:
  assumes "map_of AEa_dict gas = Some AEa"
  shows "\<exists>A Ea. AEa = [A, Ea] \<and> 0 < A"
  using assms by (auto simp add: AEa_dict_def split: if_splits)

lemma AEa_dict_keys:
  "map_of AEa_dict gas \<noteq> None \<longleftrightarrow>
     gas \<in> {''O2'', ''He'', ''Ne'', ''Ar'', ''Kr'', ''Xe'', ''N2'', ''CH4'', ''CO2'', ''H2''}"
  by (auto simp add: AEa_dict_def)

text \<open>A gas with a row takes the first branch, whatever the depth bound and the provider.\<close>

lemma diff_table_row:
  assumes "map_of AEa_dict gas = Some [A, Ea]" and "pt \<noteq> - 273.15"
  shows "diff (Suc n) g SP pt gas =
    Some (Inr (Finite (A * exp (- Ea / (8.314510 * (pt + 273.15))) * (1 - 0.049 * SP / 35.5))))"
  using assms by (simp add: subscript_fails_def Let_def)

lemma diff_zero_kelvin:
  assumes "map_of AEa_dict gas = Some AEa"
  shows "diff (Suc n) g SP (- 273.15) gas = Some (Inl ZeroDivisionError)"
proof -
  from AEa_dict_rows [OF assms] obtain A Ea where "AEa = [A, Ea]" by blast
  with assms show ?thesis by (simp add: subscript_fails_def)
qed

lemma visc_fresh:
  "visc gsw_fresh SP pt =
     Inr (Finite (1 / 10 ^ 4 * (17.91 - 0.5381 * pt + 0.00694 * pt ^ 2 + 0.02305 * SP) / 1000))"
  by (simp add: visc_def gsw_fresh_def)

subsection \<open>CO2 in \<^verbatim>\<open>diff\<close>\<close>

text \<open>
  Claim C1, as amended. The claim says that \<^verbatim>\<open>diff(SP, pt, 'CO2')\<close> goes through the
  Schmidt-number branch and differs from the Arrhenius expression of the CO2 row. The
  code does the opposite: \<^verbatim>\<open>'CO2'\<close> is a key of \<^verbatim>\<open>AEa_dict\<close>, the test
  \<^verbatim>\<open>gas in AEa_dict.keys()\<close> succeeds and the \<^verbatim>\<open>elif\<close> is never reached. For
  every SP and pt, \<^verbatim>\<open>diff(SP, pt, 'CO2')\<close> is the Arrhenius expression
  \<open>A exp(-Ea / (R (pt + 273.15))) (1 - 0.049 SP / 35.5)\<close> of the row
  \<open>[5.0190e-6, 19510]\<close>, and the division raises at \<open>pt = -273.15\<close>. One level of
  call depth is enough and the provider is never asked: neither \<^verbatim>\<open>visc\<close> nor
  \<^verbatim>\<open>schmidt\<close> is called.
\<close>

theorem diff_CO2_takes_table_row:
  "diff (Suc n) g SP pt ''CO2'' =
     (if pt = - 273.15 then Some (Inl ZeroDivisionError)
      else Some (Inr (Finite
        (5.0190 / 10 ^ 6 * exp (- 19510 / (8.314510 * (pt + 273.15)))
           * (1 - 0.049 * SP / 35.5)))))"
  by (simp add: map_of_AEa_dict_CO2 subscript_fails_def Let_def)

theorem diff_CO2_takes_table_row_witness:
  "diff (Suc 0) gsw_fresh 0 25 ''CO2'' =
     Some (Inr (Finite (5.0190 / 10 ^ 6 * exp (- 19510 / (8.314510 * (25 + 273.15))))))"
  using diff_CO2_takes_table_row [of 0 gsw_fresh 0 25] by simp

text \<open>
  The claim C1 as it is written fails at SP = 35, pt = 20: the result is the Arrhenius
  expression of the CO2 row, computed at call depth one.
\<close>

theorem diff_CO2_counterexample:
  "diff (Suc 0) gsw_fresh 35 20 ''CO2'' =
     Some (Inr (Finite (5.0190 / 10 ^ 6 * exp (- 19510 / (8.314510 * (20 + 273.15)))
                          * (1 - 0.049 * 35 / 35.5))))"
  by (simp add: map_of_AEa_dict_CO2 subscript_fails_def Let_def)

subsection \<open>Which gases \<^verbatim>\<open>diff\<close> answers for\<close>

text \<open>
  Claim C4, as amended. \<^verbatim>\<open>diff\<close> returns a number for each of the ten gases of
  its table, O2, He, Ne, Ar, Kr, Xe, N2, CH4, CO2 and H2, at every SP and every pt other
  than -273.15. N2O is not among them: it has no row and no branch,
  \<^verbatim>\<open>D\<close> is never assigned and \<^verbatim>\<open>diff(SP, pt, 'N2O')\<close> raises UnboundLocalError.
\<close>

theorem diff_defined_on_table:
  assumes "gas \<in> {''O2'', ''He'', ''Ne'', ''Ar'', ''Kr'', ''Xe'', ''N2'', ''CH4'', ''CO2'', ''H2''}"
    and "pt \<noteq> - 273.15"
  shows "(\<exists>D. diff (Suc n) g SP pt gas = Some (Inr (Finite D)))
       \<and> diff (Suc n) g SP pt ''N2O'' = Some (Inl UnboundLocalError)"
proof -
  from assms(1) have "map_of AEa_dict gas \<noteq> None" by (simp only: AEa_dict_keys)
  then obtain AEa where row: "map_of AEa_dict gas = Some AEa" by auto
  from AEa_dict_rows [OF row] obtain A Ea where "AEa = [A, Ea]" by blast
  with row have "map_of AEa_dict gas = Some [A, Ea]" by simp
  from diff_table_row [OF this assms(2)]
  have "\<exists>D. diff (Suc n) g SP pt gas = Some (Inr (Finite D))" by blast
  moreover have "diff (Suc n) g SP pt ''N2O'' = Some (Inl UnboundLocalError)"
    by (simp add: AEa_dict_def)
  ultimately show ?thesis by blast
qed

theorem diff_defined_on_table_witness:
  "(\<exists>D. diff (Suc 0) gsw_fresh 35 20 ''H2'' = Some (Inr (Finite D)))
       \<and> diff (Suc 0) gsw_fresh 35 20 ''N2O'' = Some (Inl UnboundLocalError)"
  using diff_defined_on_table [of "''H2''" 20 0 gsw_fresh 35] by simp

text \<open>
  The claim C4 as it is written fails for N2O at SP = 35, pt = 20, and for a gas of the
  table at pt = -273.15, where the divisor \<open>R (pt + 273.15)\<close> is zero.
\<close>

theorem diff_N2O_counterexample:
  "diff (Suc 0) gsw_fresh 35 20 ''N2O'' = Some (Inl UnboundLocalError)
   \<and> diff (Suc 0) gsw_fresh 35 (- 273.15) ''O2'' = Some (Inl ZeroDivisionError)"
  by (simp add: AEa_dict_def subscript_fails_def)

subsection \<open>Gases without a row\<close>

text \<open>
  Claim C5, as amended. The source has no check of the gas identifier and no
  \<^verbatim>\<open>raise\<close>. For every gas identifier that is not a key of the table,
  \<^verbatim>\<open>diff\<close> returns no value and uses no default: \<^verbatim>\<open>return D\<close> raises
  UnboundLocalError, the error of reading a local that was never assigned, not an error
  that names the gas. \<^verbatim>\<open>schmidt\<close> raises the same error once \<^verbatim>\<open>visc\<close> has
  returned, or the error of the provider when \<^verbatim>\<open>visc\<close> raises.
\<close>

theorem diff_unknown_gas:
  assumes "map_of AEa_dict gas = None"
  shows "diff (Suc n) g SP pt gas = Some (Inl UnboundLocalError)
       \<and> schmidt (Suc (Suc n)) g SP pt gas =
           (case visc g SP pt of
              Inl e \<Rightarrow> Some (Inl e)
            | Inr v \<Rightarrow> Some (Inl UnboundLocalError))"
proof -
  from assms have "gas \<noteq> ''CO2''" by (auto simp add: AEa_dict_def)
  with assms show ?thesis by (simp split: sum.splits)
qed

theorem diff_unknown_gas_witness:
  "diff (Suc 0) gsw_fresh 35 20 ''SF6'' = Some (Inl UnboundLocalError)
       \<and> schmidt (Suc (Suc 0)) gsw_fresh 35 20 ''SF6'' = Some (Inl UnboundLocalError)"
  using diff_unknown_gas [of "''SF6''" 0 gsw_fresh 35 20]
  by (simp add: AEa_dict_def visc_fresh)

text \<open>
  The claim C5 as it is written fails for the identifier \<^verbatim>\<open>'Rn'\<close>: the error is
  UnboundLocalError, not an unsupported-gas error.
\<close>

theorem diff_unknown_gas_counterexample:
  "diff (Suc 0) gsw_fresh 35 20 ''Rn'' = Some (Inl UnboundLocalError)
   \<and> diff (Suc 0) gsw_fresh 35 20 ''Rn'' \<noteq> Some (Inl UnsupportedGas)"
  by (simp add: AEa_dict_def)

subsection \<open>The Schmidt number of CO2\<close>

text \<open>
  Claim C6, as amended. For every SP and pt, \<^verbatim>\<open>schmidt(SP, pt, 'CO2')\<close> terminates:
  two levels of call depth are enough, because \<^verbatim>\<open>diff\<close> answers for CO2 from its
  table and does not call \<^verbatim>\<open>schmidt\<close> back. It returns a value whenever
  \<^verbatim>\<open>visc\<close> returns one and pt is not -273.15; the value is the viscosity divided by
  the Arrhenius expression of the CO2 row when \<^verbatim>\<open>visc\<close> returns a number \<open>v\<close> and
  the expression is not zero (SP is not 35.5/0.049). At pt = -273.15 it returns no value:
  once \<^verbatim>\<open>visc\<close> has returned, \<^verbatim>\<open>diff\<close> raises ZeroDivisionError.
\<close>

theorem schmidt_CO2_returns:
  "schmidt (Suc (Suc n)) g SP pt ''CO2'' \<noteq> None
   \<and> (visc g SP pt = Inr u \<and> pt \<noteq> - 273.15 \<longrightarrow>
        (\<exists>r. schmidt (Suc (Suc n)) g SP pt ''CO2'' = Some (Inr r)))
   \<and> (visc g SP pt = Inr (Finite v) \<and> pt \<noteq> - 273.15 \<and> SP \<noteq> 35.5 / 0.049 \<longrightarrow>
        schmidt (Suc (Suc n)) g SP pt ''CO2'' =
          Some (Inr (Finite (v /
            (5.0190 / 10 ^ 6 * exp (- 19510 / (8.314510 * (pt + 273.15)))
               * (1 - 0.049 * SP / 35.5))))))
   \<and> (visc g SP (- 273.15) = Inr w \<longrightarrow>
        schmidt (Suc (Suc n)) g SP (- 273.15) ''CO2'' = Some (Inl ZeroDivisionError))"
proof (intro conjI)
  show "schmidt (Suc (Suc n)) g SP pt ''CO2'' \<noteq> None"
    by (cases "visc g SP pt")
       (simp_all add: map_of_AEa_dict_CO2 subscript_fails_def Let_def)
  show "visc g SP pt = Inr u \<and> pt \<noteq> - 273.15 \<longrightarrow>
        (\<exists>r. schmidt (Suc (Suc n)) g SP pt ''CO2'' = Some (Inr r))"
    by (simp add: map_of_AEa_dict_CO2 subscript_fails_def Let_def)
  show "visc g SP pt = Inr (Finite v) \<and> pt \<noteq> - 273.15 \<and> SP \<noteq> 35.5 / 0.049 \<longrightarrow>
        schmidt (Suc (Suc n)) g SP pt ''CO2'' =
          Some (Inr (Finite (v /
            (5.0190 / 10 ^ 6 * exp (- 19510 / (8.314510 * (pt + 273.15)))
               * (1 - 0.049 * SP / 35.5)))))"
    by (simp add: map_of_AEa_dict_CO2 subscript_fails_def Let_def)
  show "visc g SP (- 273.15) = Inr w \<longrightarrow>
        schmidt (Suc (Suc n)) g SP (- 273.15) ''CO2'' = Some (Inl ZeroDivisionError)"
    by (simp add: map_of_AEa_dict_CO2 subscript_fails_def Let_def)
qed

theorem schmidt_CO2_returns_witness:
  "schmidt (Suc (Suc 0)) gsw_fresh 35 20 ''CO2'' =
     Some (Inr (Finite
       (1 / 10 ^ 4 * (17.91 - 0.5381 * 20 + 0.00694 * 20 ^ 2 + 0.02305 * 35) / 1000 /
          (5.0190 / 10 ^ 6 * exp (- 19510 / (8.314510 * (20 + 273.15)))
             * (1 - 0.049 * 35 / 35.5)))))"
  using schmidt_CO2_returns [of 0 gsw_fresh 35 20 _
     "1 / 10 ^ 4 * (17.91 - 0.5381 * 20 + 0.00694 * 20 ^ 2 + 0.02305 * 35) / 1000"]
  by (simp add: visc_fresh)

text \<open>
  The claim C6 as it is written fails at SP = 35, pt = -273.15: the call terminates and
  raises ZeroDivisionError, it returns no value.
\<close>

theorem schmidt_CO2_counterexample:
  "schmidt (Suc (Suc 0)) gsw_fresh 35 (- 273.15) ''CO2'' = Some (Inl ZeroDivisionError)"
  by (simp add: visc_fresh map_of_AEa_dict_CO2 subscript_fails_def)

subsection \<open>Salinity correction in exact arithmetic\<close>

text \<open>
  Over the real numbers the expression that \<^verbatim>\<open>diff\<close> evaluates is strictly decreasing
  in SP at every temperature other than -273.15: the freshwater diffusivity is positive
  and the factor \<open>1 - 0.049 SP / 35.5\<close> decreases. This is a fact about the expression,
  not yet about the doubles the program returns.
\<close>

lemma diff_exact_salinity_decreasing:
  assumes "map_of AEa_dict gas \<noteq> None" and "pt \<noteq> - 273.15" and "SP1 < SP2"
  shows "\<exists>D1 D2. diff (Suc n) g SP1 pt gas = Some (Inr (Finite D1))
               \<and> diff (Suc n) g SP2 pt gas = Some (Inr (Finite D2))
               \<and> D2 < D1"
proof -
  from assms(1) obtain AEa where row: "map_of AEa_dict gas = Some AEa" by auto
  from AEa_dict_rows [OF row] obtain A Ea where AEa: "AEa = [A, Ea]" and A: "0 < A" by blast
  define D0 where "D0 = A * exp (- Ea / (8.314510 * (pt + 273.15)))"
  have D0: "0 < D0" using A by (simp add: D0_def)
  from row AEa have row': "map_of AEa_dict gas = Some [A, Ea]" by simp
  have d1: "diff (Suc n) g SP1 pt gas = Some (Inr (Finite (D0 * (1 - 0.049 * SP1 / 35.5))))"
    unfolding D0_def by (rule diff_table_row [OF row' assms(2)])
  have d2: "diff (Suc n) g SP2 pt gas = Some (Inr (Finite (D0 * (1 - 0.049 * SP2 / 35.5))))"
    unfolding D0_def by (rule diff_table_row [OF row' assms(2)])
  have "1 - 0.049 * SP2 / 35.5 < 1 - 0.049 * SP1 / 35.5" using assms(3) by simp
  with D0 have "D0 * (1 - 0.049 * SP2 / 35.5) < D0 * (1 - 0.049 * SP1 / 35.5)"
    by (rule mult_strict_left_mono [rotated])
  with d1 d2 show ?thesis by blast
qed

subsection \<open>Rounding to double\<close>














subsection \<open>Salinity correction in double precision\<close>

text \<open>Without rounding, \<open>diff_row\<close> is the table branch of \<open>diff\<close>.\<close>

lemma diff_is_diff_row:
  assumes "map_of AEa_dict gas = Some AEa"
  shows "diff (Suc n) g SP pt gas = Some (diff_row (\<lambda>x. x) exp AEa SP pt)"
  using assms by (simp add: diff_row_def Let_def)









section \<open>Properties of sol.py\<close>

subsection \<open>Where the logarithms and divisions are defined\<close>

lemma logT_domain:
  fixes T :: real
  assumes "- 273.15 < T" and "T < 298.15"
  shows "273.15 + T \<noteq> 0" and "\<not> (298.15 - T) / (273.15 + T) \<le> 0"
proof -
  from assms have p: "0 < 273.15 + T" and q: "0 < 298.15 - T" by simp_all
  from p show "273.15 + T \<noteq> 0" by simp
  from p q have "0 < (298.15 - T) / (273.15 + T)" by (rule divide_pos_pos [rotated])
  then show "\<not> (298.15 - T) / (273.15 + T) \<le> 0" by simp
qed

lemma pt68_domain:
  fixes pt :: real
  assumes "- 273.15 < pt * 1.00024" and "pt * 1.00024 < 298.15"
  shows "- 273.15 < pt" and "pt < 298.15"
  using assms by simp_all

lemma kelvin_domain:
  fixes pt :: real
  assumes "- 273.15 < pt * 1.00024"
  shows "pt * 1.00024 + 273.15 \<noteq> 0" and "\<not> (pt * 1.00024 + 273.15) * (1 / 10 ^ 2) \<le> 0"
  using assms by simp_all

lemma box_domain:
  fixes pt :: real
  assumes "- 2 \<le> pt" and "pt \<le> 40"
  shows "- 273.15 < pt * 1.00024" and "pt * 1.00024 < 298.15"
  using assms by simp_all

subsection \<open>The functions of the log-temperature family\<close>

lemma O2sol_SP_pt_eq:
  assumes "- 273.15 < pt * 1.00024" and "pt * 1.00024 < 298.15"
  shows "O2sol_SP_pt SP pt =
     Inr (Finite (exp (logT_lnC
       [5.80871, 3.20291, 4.17887, 5.10006, - 9.86643 / 10 ^ 2, 3.80369]
       [- 7.01577 / 10 ^ 3, - 7.70028 / 10 ^ 3, - 1.13864 / 10 ^ 2, - 9.51519 / 10 ^ 3]
       (- 2.75915 / 10 ^ 7) (logT_y (pt * 1.00024)) SP)))"
  using logT_domain [OF assms]
  by (simp add: O2sol_SP_pt_def match_args_return_def subscript_fails_def Let_def
      logT_lnC_def logT_y_def mult.commute)

lemma Nesol_SP_pt_eq:
  assumes "- 273.15 < pt" and "pt < 298.15"
  shows "Nesol_SP_pt SP pt =
     Inr (Finite (10 ^ 3 * exp (logT_lnC
       [2.18156, 1.29108, 2.12504]
       [- 5.94737 / 10 ^ 3, - 5.13896 / 10 ^ 3]
       0 (logT_y pt) SP)))"
  using logT_domain [OF assms]
  by (simp add: Nesol_SP_pt_def match_args_return_def subscript_fails_def Let_def
      logT_lnC_def logT_y_def mult.commute)

lemma Arsol_SP_pt_eq:
  assumes "- 273.15 < pt" and "pt < 298.15"
  shows "Arsol_SP_pt SP pt =
     Inr (Finite (exp (logT_lnC
       [2.79150, 3.17609, 4.13116, 4.90379]
       [- 6.96233 / 10 ^ 3, - 7.66670 / 10 ^ 3, - 1.16888 / 10 ^ 2]
       0 (logT_y pt) SP)))"
  using logT_domain [OF assms]
  by (simp add: Arsol_SP_pt_def match_args_return_def subscript_fails_def Let_def
      logT_lnC_def logT_y_def mult.commute)

lemma N2sol_SP_pt_eq:
  assumes "- 273.15 < pt" and "pt < 298.15"
  shows "N2sol_SP_pt SP pt =
     Inr (Finite (exp (logT_lnC
       [6.42931, 2.92704, 4.32531, 4.69149]
       [- 7.44129 / 10 ^ 3, - 8.02566 / 10 ^ 3, - 1.46775 / 10 ^ 2]
       0 (logT_y pt) SP)))"
  using logT_domain [OF assms]
  by (simp add: N2sol_SP_pt_def match_args_return_def subscript_fails_def Let_def
      logT_lnC_def logT_y_def mult.commute)

subsection \<open>The functions of the inverse-temperature family\<close>

lemma Hesol_SP_pt_positive:
  assumes "- 273.15 < pt * 1.00024"
  shows "positive_finite (Hesol_SP_pt SP pt)"
  using kelvin_domain [OF assms]
  by (simp add: Hesol_SP_pt_def match_args_return_def subscript_fails_def Let_def)

lemma Krsol_SP_pt_positive:
  assumes "- 273.15 < pt * 1.00024"
  shows "positive_finite (Krsol_SP_pt SP pt)"
  using kelvin_domain [OF assms]
  by (simp add: Krsol_SP_pt_def match_args_return_def subscript_fails_def Let_def)

lemma CO2sol_SP_pt_positive:
  assumes "- 273.15 < pt * 1.00024"
  shows "positive_finite (CO2sol_SP_pt SP pt)"
  using kelvin_domain [OF assms]
  by (simp add: CO2sol_SP_pt_def match_args_return_def subscript_fails_def Let_def)

lemma N2Osol_SP_pt_IndexError: "N2Osol_SP_pt SP pt = Inl IndexError"
  by (simp add: N2Osol_SP_pt_def match_args_return_def subscript_fails_def Let_def)

text \<open>
  On the box of the specification, SP in [0, 40] and pt in [-2, 40], the seven functions
  other than \<^verbatim>\<open>N2Osol_SP_pt\<close> return a strictly positive number.
\<close>

lemma solubility_positive_but_N2O:
  assumes "0 \<le> SP" and "SP \<le> 40" and "- 2 \<le> pt" and "pt \<le> 40"
  shows "positive_finite (O2sol_SP_pt SP pt)"
    and "positive_finite (Hesol_SP_pt SP pt)"
    and "positive_finite (Nesol_SP_pt SP pt)"
    and "positive_finite (Arsol_SP_pt SP pt)"
    and "positive_finite (Krsol_SP_pt SP pt)"
    and "positive_finite (N2sol_SP_pt SP pt)"
    and "positive_finite (CO2sol_SP_pt SP pt)"
proof -
  note b = box_domain [OF assms(3,4)]
  note p = pt68_domain [OF b]
  show "positive_finite (O2sol_SP_pt SP pt)" by (simp add: O2sol_SP_pt_eq [OF b])
  show "positive_finite (Nesol_SP_pt SP pt)" by (simp add: Nesol_SP_pt_eq [OF p])
  show "positive_finite (Arsol_SP_pt SP pt)" by (simp add: Arsol_SP_pt_eq [OF p])
  show "positive_finite (N2sol_SP_pt SP pt)" by (simp add: N2sol_SP_pt_eq [OF p])
  show "positive_finite (Hesol_SP_pt SP pt)" by (rule Hesol_SP_pt_positive [OF b(1)])
  show "positive_finite (Krsol_SP_pt SP pt)" by (rule Krsol_SP_pt_positive [OF b(1)])
  show "positive_finite (CO2sol_SP_pt SP pt)" by (rule CO2sol_SP_pt_positive [OF b(1)])
qed

subsection \<open>N2O\<close>

text \<open>
  Claim C2 fails in the code for N2O. At SP = 35, pt = 20, inside the box SP in [0, 40],
  pt in [-2, 40], \<^verbatim>\<open>N2Osol_SP_pt\<close> returns no number: the subscript \<^verbatim>\<open>b[2]\<close> raises
  IndexError, because the list \<^verbatim>\<open>b\<close> has two entries.
\<close>

theorem N2Osol_SP_pt_not_positive:
  "(0::real) \<le> 35 \<and> (35::real) \<le> 40 \<and> (- 2::real) \<le> 20 \<and> (20::real) \<le> 40
   \<and> N2Osol_SP_pt 35 20 = Inl IndexError
   \<and> \<not> positive_finite (N2Osol_SP_pt 35 20)"
  by (simp add: N2Osol_SP_pt_def match_args_return_def subscript_fails_def Let_def)

text \<open>
  Claim C3 fails in the code. For every SP and pt, \<^verbatim>\<open>N2Osol_SP_pt\<close> raises
  IndexError and so does not return the value of the inverse-temperature formula with the
  three-coefficient salinity term and the moist-air correction.
\<close>

theorem N2Osol_SP_pt_raises:
  "N2Osol_SP_pt SP pt = Inl IndexError
   \<and> N2Osol_SP_pt SP pt \<noteq> Inr (Finite (N2Osol_Weiss_Price SP pt))"
  by (simp add: N2Osol_SP_pt_def match_args_return_def subscript_fails_def Let_def)

subsection \<open>The shape of the Ne fit\<close>

lemma logT_T_parts:
  shows "298.15 - logT_T y = 571.3 * exp y / (1 + exp y)"
    and "273.15 + logT_T y = 571.3 / (1 + exp y)"
    and "0 < 1 + exp y"
proof -
  show p: "0 < 1 + exp y" using exp_gt_zero [of y] by (simp add: add_pos_pos)
  then have d: "1 + exp y \<noteq> 0" by simp
  show "298.15 - logT_T y = 571.3 * exp y / (1 + exp y)"
    unfolding logT_T_def using d by (simp add: field_simps)
  show "273.15 + logT_T y = 571.3 / (1 + exp y)"
    unfolding logT_T_def using d by (simp add: field_simps)
qed

lemma logT_T_domain: "- 273.15 < logT_T y" "logT_T y < 298.15"
proof -
  have "0 < 571.3 / (1 + exp y)" using logT_T_parts(3) [of y] by simp
  then have "0 < 273.15 + logT_T y" by (simp only: logT_T_parts(2))
  then show "- 273.15 < logT_T y" by simp
  have "0 < 571.3 * exp y / (1 + exp y)" using logT_T_parts(3) [of y] by simp
  then have "0 < 298.15 - logT_T y" by (simp only: logT_T_parts(1))
  then show "logT_T y < 298.15" by simp
qed

text \<open>Every real number is a value of the variable \<open>y\<close>.\<close>

lemma logT_y_T: "logT_y (logT_T y) = y"
proof -
  have d: "1 + exp y \<noteq> 0" using logT_T_parts(3) [of y] by simp
  have "(298.15 - logT_T y) / (273.15 + logT_T y) = exp y"
    unfolding logT_T_parts(1,2) using d by simp
  then show ?thesis by (simp add: logT_y_def)
qed

lemma Nesol_at_y:
  "Nesol_SP_pt SP (logT_T y) =
     Inr (Finite (10 ^ 3 * exp (logT_lnC
       [2.18156, 1.29108, 2.12504]
       [- 5.94737 / 10 ^ 3, - 5.13896 / 10 ^ 3] 0 y SP)))"
  using Nesol_SP_pt_eq [OF logT_T_domain, of SP y] by (simp only: logT_y_T)

text \<open>
  A cubic in \<open>y\<close> with a salinity term quadratic in \<open>y\<close> that agrees everywhere with a
  quadratic with a linear salinity term has no cubic and no quadratic coefficient.
\<close>

lemma cubic_quadratic_vanish:
  fixes a0 a1 a2 a3 b0 b1 b2 :: real
  assumes eq: "\<And>y SP. logT_lnC [a0, a1, a2, a3] [b0, b1, b2] 0 y SP
                       = L + logT_lnC [A0, A1, A2] [B0, B1] 0 y SP"
  shows "a3 = 0 \<and> b2 = 0"
proof -
  note e = eq [unfolded logT_lnC_def, simplified]
  from e [of 0 0] e [of 1 0] e [of "-1" 0] e [of 2 0] have "a3 = 0" by simp
  moreover
  from e [of 0 0] e [of 1 0] e [of "-1" 0] e [of 0 1] e [of 1 1] e [of "-1" 1]
  have "b2 = 0" by simp
  ultimately show ?thesis by simp
qed

text \<open>
  Claim C7, as amended. With \<open>y = ln((298.15 - pt)/(273.15 + pt))\<close>, Ne solubility is
  evaluated with a 3-term a-polynomial (quadratic in \<open>y\<close>) and a 2-term b salinity
  polynomial (linear in \<open>y\<close>): it is a positive constant times
  \<open>exp(a0 + y (a1 + a2 y) + SP (b0 + b1 y))\<close>. These are not the shapes of Ar and N2,
  which have a 4-term a-polynomial and a 3-term b-polynomial.
\<close>

theorem Nesol_SP_pt_shape:
  "\<exists>k. 0 < k \<and> (\<forall>SP pt. - 273.15 < pt \<and> pt < 298.15 \<longrightarrow>
         Nesol_SP_pt SP pt =
           Inr (Finite (k * exp
             (2.18156 + logT_y pt * (1.29108 + 2.12504 * logT_y pt)
              + SP * (- 5.94737 / 10 ^ 3 + - 5.13896 / 10 ^ 3 * logT_y pt))))
       \<and> Arsol_SP_pt SP pt =
           Inr (Finite (exp
             (2.79150 + logT_y pt * (3.17609 + logT_y pt * (4.13116 + 4.90379 * logT_y pt))
              + SP * (- 6.96233 / 10 ^ 3
                      + logT_y pt * (- 7.66670 / 10 ^ 3 + - 1.16888 / 10 ^ 2 * logT_y pt)))))
       \<and> N2sol_SP_pt SP pt =
           Inr (Finite (exp
             (6.42931 + logT_y pt * (2.92704 + logT_y pt * (4.32531 + 4.69149 * logT_y pt))
              + SP * (- 7.44129 / 10 ^ 3
                      + logT_y pt * (- 8.02566 / 10 ^ 3 + - 1.46775 / 10 ^ 2 * logT_y pt))))))"
proof (intro exI [of _ "10 ^ 3"] conjI allI impI)
  show "(0::real) < 10 ^ 3" by simp
next
  fix SP pt :: real
  assume "- 273.15 < pt \<and> pt < 298.15"
  then have d: "- 273.15 < pt" "pt < 298.15" by simp_all
  note dom = logT_domain [OF d]
  show "Nesol_SP_pt SP pt =
           Inr (Finite (10 ^ 3 * exp
             (2.18156 + logT_y pt * (1.29108 + 2.12504 * logT_y pt)
              + SP * (- 5.94737 / 10 ^ 3 + - 5.13896 / 10 ^ 3 * logT_y pt))))"
    using dom
    by (simp add: Nesol_SP_pt_def match_args_return_def subscript_fails_def Let_def
        logT_y_def)
  show "Arsol_SP_pt SP pt =
           Inr (Finite (exp
             (2.79150 + logT_y pt * (3.17609 + logT_y pt * (4.13116 + 4.90379 * logT_y pt))
              + SP * (- 6.96233 / 10 ^ 3
                      + logT_y pt * (- 7.66670 / 10 ^ 3 + - 1.16888 / 10 ^ 2 * logT_y pt)))))"
    using dom
    by (simp add: Arsol_SP_pt_def match_args_return_def subscript_fails_def Let_def
        logT_y_def)
  show "N2sol_SP_pt SP pt =
           Inr (Finite (exp
             (6.42931 + logT_y pt * (2.92704 + logT_y pt * (4.32531 + 4.69149 * logT_y pt))
              + SP * (- 7.44129 / 10 ^ 3
                      + logT_y pt * (- 8.02566 / 10 ^ 3 + - 1.46775 / 10 ^ 2 * logT_y pt)))))"
    using dom
    by (simp add: N2sol_SP_pt_def match_args_return_def subscript_fails_def Let_def
        logT_y_def)
qed

theorem Nesol_SP_pt_shape_witness:
  "\<exists>k. 0 < k \<and>
         Nesol_SP_pt 35 20 =
           Inr (Finite (k * exp
             (2.18156 + logT_y 20 * (1.29108 + 2.12504 * logT_y 20)
              + 35 * (- 5.94737 / 10 ^ 3 + - 5.13896 / 10 ^ 3 * logT_y 20))))
       \<and> Arsol_SP_pt 35 20 =
           Inr (Finite (exp
             (2.79150 + logT_y 20 * (3.17609 + logT_y 20 * (4.13116 + 4.90379 * logT_y 20))
              + 35 * (- 6.96233 / 10 ^ 3
                      + logT_y 20 * (- 7.66670 / 10 ^ 3 + - 1.16888 / 10 ^ 2 * logT_y 20)))))
       \<and> N2sol_SP_pt 35 20 =
           Inr (Finite (exp
             (6.42931 + logT_y 20 * (2.92704 + logT_y 20 * (4.32531 + 4.69149 * logT_y 20))
              + 35 * (- 7.44129 / 10 ^ 3
                      + logT_y 20 * (- 8.02566 / 10 ^ 3 + - 1.46775 / 10 ^ 2 * logT_y 20)))))"
proof -
  from Nesol_SP_pt_shape obtain k where k: "0 < k"
    and all: "\<forall>SP pt. - 273.15 < pt \<and> pt < 298.15 \<longrightarrow>
         Nesol_SP_pt SP pt =
           Inr (Finite (k * exp
             (2.18156 + logT_y pt * (1.29108 + 2.12504 * logT_y pt)
              + SP * (- 5.94737 / 10 ^ 3 + - 5.13896 / 10 ^ 3 * logT_y pt))))
       \<and> Arsol_SP_pt SP pt =
           Inr (Finite (exp
             (2.79150 + logT_y pt * (3.17609 + logT_y pt * (4.13116 + 4.90379 * logT_y pt))
              + SP * (- 6.96233 / 10 ^ 3
                      + logT_y pt * (- 7.66670 / 10 ^ 3 + - 1.16888 / 10 ^ 2 * logT_y pt)))))
       \<and> N2sol_SP_pt SP pt =
           Inr (Finite (exp
             (6.42931 + logT_y pt * (2.92704 + logT_y pt * (4.32531 + 4.69149 * logT_y pt))
              + SP * (- 7.44129 / 10 ^ 3
                      + logT_y pt * (- 8.02566 / 10 ^ 3 + - 1.46775 / 10 ^ 2 * logT_y pt)))))"
    by (elim exE conjE)
  have h: "- 273.15 < (20::real) \<and> (20::real) < 298.15" by simp
  from all [rule_format, OF h, of 35] k show ?thesis by (intro exI [of _ k] conjI) simp_all
qed

text \<open>
  The claim C7 as it is written fails: no coefficients with a cubic term in the
  a-polynomial or a quadratic term in the b-polynomial give the Ne solubility of the code
  on the temperatures between -273.15 and 298.15 degrees C. (A constant factor in front
  of the exponential is no obstacle to such a fit, it would be part of \<open>a0\<close>.)
\<close>

theorem Nesol_SP_pt_shape_counterexample:
  "\<not> (\<exists>a0 a1 a2 a3 b0 b1 b2. (a3 \<noteq> 0 \<or> b2 \<noteq> 0) \<and>
        (\<forall>SP pt. - 273.15 < pt \<and> pt < 298.15 \<longrightarrow>
           Nesol_SP_pt SP pt =
             Inr (Finite (exp (logT_lnC [a0, a1, a2, a3] [b0, b1, b2] 0 (logT_y pt) SP)))))"
proof
  assume "\<exists>a0 a1 a2 a3 b0 b1 b2. (a3 \<noteq> 0 \<or> b2 \<noteq> 0) \<and>
        (\<forall>SP pt. - 273.15 < pt \<and> pt < 298.15 \<longrightarrow>
           Nesol_SP_pt SP pt =
             Inr (Finite (exp (logT_lnC [a0, a1, a2, a3] [b0, b1, b2] 0 (logT_y pt) SP))))"
  then obtain a0 a1 a2 a3 b0 b1 b2 where nz: "a3 \<noteq> 0 \<or> b2 \<noteq> 0"
    and all: "\<And>SP pt. - 273.15 < pt \<Longrightarrow> pt < 298.15 \<Longrightarrow>
           Nesol_SP_pt SP pt =
             Inr (Finite (exp (logT_lnC [a0, a1, a2, a3] [b0, b1, b2] 0 (logT_y pt) SP)))"
    by blast
  have "logT_lnC [a0, a1, a2, a3] [b0, b1, b2] 0 y SP
        = ln (10 ^ 3) + logT_lnC [2.18156, 1.29108, 2.12504]
              [- 5.94737 / 10 ^ 3, - 5.13896 / 10 ^ 3] 0 y SP" for y SP
  proof -
    from all [OF logT_T_domain, of SP y]
    have "exp (logT_lnC [a0, a1, a2, a3] [b0, b1, b2] 0 y SP)
          = 10 ^ 3 * exp (logT_lnC [2.18156, 1.29108, 2.12504]
              [- 5.94737 / 10 ^ 3, - 5.13896 / 10 ^ 3] 0 y SP)"
      by (simp only: Nesol_at_y logT_y_T sum.inject val.inject)
    also have "\<dots> = exp (ln (10 ^ 3) + logT_lnC [2.18156, 1.29108, 2.12504]
              [- 5.94737 / 10 ^ 3, - 5.13896 / 10 ^ 3] 0 y SP)"
      by (simp only: exp_add) simp
    finally show ?thesis by (simp only: exp_inj_iff)
  qed
  from cubic_quadratic_vanish [OF this] nz show False by simp
qed

subsection \<open>The temperature scale of the log-temperature family\<close>

text \<open>
  Claim C8. In the log-temperature family, \<^verbatim>\<open>O2sol_SP_pt\<close> forms
  \<open>y = ln((298.15 - T)/(273.15 + T))\<close> from the temperature on the 1968 scale,
  \<open>T = pt 1.00024\<close>, while \<^verbatim>\<open>Nesol_SP_pt\<close>, \<^verbatim>\<open>Arsol_SP_pt\<close> and
  \<^verbatim>\<open>N2sol_SP_pt\<close> form it from pt itself, with no conversion. (Stated where the
  logarithms are defined: pt 1.00024 between -273.15 and 298.15.)
\<close>

theorem logT_family_temperature_scale:
  assumes "- 273.15 < pt * 1.00024" and "pt * 1.00024 < 298.15"
  shows "O2sol_SP_pt SP pt =
           Inr (Finite (exp (logT_lnC
             [5.80871, 3.20291, 4.17887, 5.10006, - 9.86643 / 10 ^ 2, 3.80369]
             [- 7.01577 / 10 ^ 3, - 7.70028 / 10 ^ 3, - 1.13864 / 10 ^ 2, - 9.51519 / 10 ^ 3]
             (- 2.75915 / 10 ^ 7) (logT_y (pt * 1.00024)) SP)))
       \<and> Nesol_SP_pt SP pt =
           Inr (Finite (10 ^ 3 * exp (logT_lnC
             [2.18156, 1.29108, 2.12504]
             [- 5.94737 / 10 ^ 3, - 5.13896 / 10 ^ 3]
             0 (logT_y pt) SP)))
       \<and> Arsol_SP_pt SP pt =
           Inr (Finite (exp (logT_lnC
             [2.79150, 3.17609, 4.13116, 4.90379]
             [- 6.96233 / 10 ^ 3, - 7.66670 / 10 ^ 3, - 1.16888 / 10 ^ 2]
             0 (logT_y pt) SP)))
       \<and> N2sol_SP_pt SP pt =
           Inr (Finite (exp (logT_lnC
             [6.42931, 2.92704, 4.32531, 4.69149]
             [- 7.44129 / 10 ^ 3, - 8.02566 / 10 ^ 3, - 1.46775 / 10 ^ 2]
             0 (logT_y pt) SP)))"
proof -
  note p = pt68_domain [OF assms]
  show ?thesis
    by (simp only: O2sol_SP_pt_eq [OF assms] Nesol_SP_pt_eq [OF p] Arsol_SP_pt_eq [OF p]
        N2sol_SP_pt_eq [OF p] simp_thms)
qed

theorem logT_family_temperature_scale_witness:
  "O2sol_SP_pt 35 20 =
           Inr (Finite (exp (logT_lnC
             [5.80871, 3.20291, 4.17887, 5.10006, - 9.86643 / 10 ^ 2, 3.80369]
             [- 7.01577 / 10 ^ 3, - 7.70028 / 10 ^ 3, - 1.13864 / 10 ^ 2, - 9.51519 / 10 ^ 3]
             (- 2.75915 / 10 ^ 7) (logT_y (20 * 1.00024)) 35)))
       \<and> Nesol_SP_pt 35 20 =
           Inr (Finite (10 ^ 3 * exp (logT_lnC
             [2.18156, 1.29108, 2.12504]
             [- 5.94737 / 10 ^ 3, - 5.13896 / 10 ^ 3]
             0 (logT_y 20) 35)))
       \<and> Arsol_SP_pt 35 20 =
           Inr (Finite (exp (logT_lnC
             [2.79150, 3.17609, 4.13116, 4.90379]
             [- 6.96233 / 10 ^ 3, - 7.66670 / 10 ^ 3, - 1.16888 / 10 ^ 2]
             0 (logT_y 20) 35)))
       \<and> N2sol_SP_pt 35 20 =
           Inr (Finite (exp (logT_lnC
             [6.42931, 2.92704, 4.32531, 4.69149]
             [- 7.44129 / 10 ^ 3, - 8.02566 / 10 ^ 3, - 1.46775 / 10 ^ 2]
             0 (logT_y 20) 35)))"
proof -
  have h: "- 273.15 < (20::real) * 1.00024" "(20::real) * 1.00024 < 298.15" by simp_all
  show ?thesis by (rule logT_family_temperature_scale [OF h, of 35])
qed

subsection \<open>The export list\<close>

text \<open>
  Claim C10. The export list \<^verbatim>\<open>__all__\<close> of the solubility module names exactly the
  practical-salinity function \<^verbatim>\<open>Xsol_SP_pt\<close> and the Absolute-Salinity and
  Conservative-Temperature function \<^verbatim>\<open>Xsol\<close> of the seven gases O2, He, Ne, Ar, Kr,
  N2 and N2O, each once. \<^verbatim>\<open>CO2sol_SP_pt\<close> and \<^verbatim>\<open>CO2sol\<close> are defined in the
  module and are not in the list.
\<close>

theorem sol_all_exports:
  "set sol_all =
      (\<lambda>gas. gas @ ''sol_SP_pt'') ` {''O2'', ''He'', ''Ne'', ''Ar'', ''Kr'', ''N2'', ''N2O''}
    \<union> (\<lambda>gas. gas @ ''sol'') ` {''O2'', ''He'', ''Ne'', ''Ar'', ''Kr'', ''N2'', ''N2O''}
   \<and> distinct sol_all
   \<and> map_of sol_module ''CO2sol_SP_pt'' = Some (SP_pt CO2sol_SP_pt)
   \<and> map_of sol_module ''CO2sol'' = Some (SA_CT CO2sol)
   \<and> ''CO2sol_SP_pt'' \<notin> set sol_all
   \<and> ''CO2sol'' \<notin> set sol_all"
  by (simp add: sol_all_def sol_module_def insert_commute)

end
